theory Spec2Isabelle
  imports Main "HOL-Library.Char_ord"
begin

section \<open>Screen-share permission dialog: data model\<close>

text \<open>
  The component \<open>ScreenSharePermissionDialog\<close> asks the browser for a screen capture
  (\<open>navigator.mediaDevices.getDisplayMedia\<close>), classifies a failure into one of four
  error types (\<open>getErrorInfo\<close>) and looks a troubleshooting entry up by that type.
  The model has the environment (\<open>navigator\<close>) as a value, the thrown value
  (\<open>err: unknown\<close>) as a datatype of JavaScript values, and the React state together
  with the calls the component makes as an explicit state with a trace.
\<close>

subsection \<open>\<open>ERROR_TYPES\<close> and \<open>ErrorInfo\<close>\<close>

text \<open>
  \<open>ERROR_TYPES\<close> is an object of four string constants; the \<open>type\<close> of an
  \<open>ErrorInfo\<close> is one of these strings, and the troubleshooting table is keyed by them.
\<close>

record ERROR_TYPES_obj =
  HTTPS :: string
  NOT_SUPPORTED :: string
  PERMISSION :: string
  GENERAL :: string

definition ERROR_TYPES :: ERROR_TYPES_obj where
  "ERROR_TYPES =
     \<lparr> HTTPS = ''https'',
       NOT_SUPPORTED = ''not-supported'',
       PERMISSION = ''permission'',
       GENERAL = ''general'' \<rparr>"

record ErrorInfo =
  type :: string
  message :: string

subsection \<open>\<open>DISPLAY_CONSTRAINTS\<close>\<close>

record ConstrainRange =
  ideal :: nat
  max_value :: nat

record VideoConstraints =
  width :: ConstrainRange
  height :: ConstrainRange
  frameRate :: ConstrainRange

record DisplayMediaStreamOptions =
  video :: VideoConstraints
  audio :: bool

definition DISPLAY_CONSTRAINTS :: DisplayMediaStreamOptions where
  "DISPLAY_CONSTRAINTS =
     \<lparr> video =
         \<lparr> width = \<lparr> ideal = 1920, max_value = 1920 \<rparr>,
           height = \<lparr> ideal = 1080, max_value = 1080 \<rparr>,
           frameRate = \<lparr> ideal = 60, max_value = 60 \<rparr> \<rparr>,
       audio = False \<rparr>"

subsection \<open>Thrown values, streams and the environment\<close>

text \<open>
  A value caught by \<open>catch (err)\<close> has type \<open>unknown\<close>. \<open>DOMException name message\<close>
  are the values for which \<open>err instanceof DOMException\<close> holds; \<open>JSError name message\<close>
  are the other error objects (\<open>new Error("NOT_SUPPORTED")\<close> has the name \<open>Error\<close>, a
  failed property access on \<open>undefined\<close> is a \<open>TypeError\<close>); the rest are values that are
  not error objects at all.
\<close>

datatype js_value =
    DOMException string string
  | JSError string string
  | JSUndefined
  | JSNull
  | JSBoolean bool
  | JSNumber int
  | JSString string
  | JSObject "(string \<times> js_value) list"

record MediaStreamTrack =
  track_id :: string
  track_label :: string

text \<open>\<open>getVideoTracks\<close> is the array that \<open>stream.getVideoTracks()\<close> returns.\<close>

record MediaStream =
  stream_id :: string
  getVideoTracks :: "MediaStreamTrack list"

text \<open>
  The promise returned by \<open>getDisplayMedia\<close> resolves with a stream, rejects with a
  value, or never settles (the user leaves the browser's prompt open for ever).
\<close>

datatype promise_outcome =
    Resolved MediaStream
  | Rejected js_value
  | NeverSettles

text \<open>
  \<open>navigator.mediaDevices\<close> may be missing (an insecure context), and so may its
  \<open>getDisplayMedia\<close> function (an old browser): both are optional.
\<close>

record MediaDevices =
  getDisplayMedia :: "(DisplayMediaStreamOptions \<Rightarrow> promise_outcome) option"

record Navigator =
  mediaDevices :: "MediaDevices option"

section \<open>\<open>getErrorInfo\<close>\<close>

text \<open>The \<open>switch (err.name)\<close> of lines 51 to 87, in the order of its cases.\<close>

definition domExceptionInfo :: "string \<Rightarrow> ErrorInfo" where
  "domExceptionInfo name =
     (if name = ''NotAllowedError'' then
        \<lparr> type = PERMISSION ERROR_TYPES, message = ''Screen sharing access denied'' \<rparr>
      else if name = ''NotFoundError'' then
        \<lparr> type = GENERAL ERROR_TYPES, message = ''No screen available for sharing'' \<rparr>
      else if name = ''NotReadableError'' then
        \<lparr> type = GENERAL ERROR_TYPES, message = ''Screen is already being captured'' \<rparr>
      else if name = ''OverconstrainedError'' then
        \<lparr> type = GENERAL ERROR_TYPES, message = ''Screen doesn't meet capture requirements'' \<rparr>
      else if name = ''SecurityError'' then
        \<lparr> type = HTTPS ERROR_TYPES, message = ''Security error accessing screen'' \<rparr>
      else if name = ''AbortError'' then
        \<lparr> type = PERMISSION ERROR_TYPES, message = ''Screen sharing was cancelled'' \<rparr>
      else
        \<lparr> type = GENERAL ERROR_TYPES, message = ''Screen sharing error: '' @ name \<rparr>)"

fun getErrorInfo :: "Navigator \<Rightarrow> js_value \<Rightarrow> ErrorInfo" where
  "getErrorInfo navigator err =
     (case mediaDevices navigator of
        None \<Rightarrow>
          \<lparr> type = HTTPS ERROR_TYPES,
            message = ''Screen sharing requires a secure connection (HTTPS)'' \<rparr>
      | Some md \<Rightarrow>
          (case getDisplayMedia md of
             None \<Rightarrow>
               \<lparr> type = NOT_SUPPORTED ERROR_TYPES,
                 message = ''Screen sharing not supported in this browser'' \<rparr>
           | Some f \<Rightarrow>
               (case err of
                  DOMException name msg \<Rightarrow> domExceptionInfo name
                | _ \<Rightarrow>
                  \<lparr> type = GENERAL ERROR_TYPES, message = ''Failed to access screen'' \<rparr>)))"

section \<open>\<open>requestScreenShare\<close>\<close>

subsection \<open>Component state and the calls it makes\<close>

text \<open>
  The two \<open>useState\<close> cells of the component, and the trace of the calls it has made so
  far: state setters, the platform request, the listener registration, the grant
  callback and \<open>console.error\<close>. A setter both stores the value and is recorded.
\<close>

datatype event =
    SetIsRequesting bool
  | SetError "ErrorInfo option"
  | CallGetDisplayMedia DisplayMediaStreamOptions
  | AddEventListener MediaStreamTrack string
  | CallOnPermissionGranted MediaStream
  | ConsoleError js_value ErrorInfo

record Dialog =
  isRequesting :: bool
  error :: "ErrorInfo option"
  trace :: "event list"

definition emit :: "event \<Rightarrow> Dialog \<Rightarrow> Dialog" where
  "emit e d = d\<lparr> trace := trace d @ [e] \<rparr>"

definition setIsRequesting :: "bool \<Rightarrow> Dialog \<Rightarrow> Dialog" where
  "setIsRequesting b d = emit (SetIsRequesting b) (d\<lparr> isRequesting := b \<rparr>)"

definition setError :: "ErrorInfo option \<Rightarrow> Dialog \<Rightarrow> Dialog" where
  "setError e d = emit (SetError e) (d\<lparr> error := e \<rparr>)"

text \<open>The state of a freshly mounted component: \<open>useState(false)\<close>, \<open>useState(null)\<close>.\<close>

definition initialDialog :: Dialog where
  "initialDialog = \<lparr> isRequesting = False, error = None, trace = [] \<rparr>"

subsection \<open>The \<open>try\<close> block\<close>

text \<open>
  How the \<open>try\<close> block (lines 101 to 113) ends: it runs to its end, it throws, or it
  stays suspended at the \<open>await\<close> for ever.
\<close>

datatype completion =
    Completed
  | Threw js_value
  | Suspended

definition NOT_SUPPORTED_Error :: js_value where
  "NOT_SUPPORTED_Error = JSError ''Error'' ''NOT_SUPPORTED''"

text \<open>
  \<open>stream.getVideoTracks()[0]\<close> is \<open>undefined\<close> for a stream without video track, and
  calling \<open>addEventListener\<close> on it throws a \<open>TypeError\<close>.
\<close>

definition undefined_TypeError :: js_value where
  "undefined_TypeError =
     JSError ''TypeError'' ''Cannot read properties of undefined (reading 'addEventListener')''"

text \<open>
  The grant callback is a prop of the component: \<open>onPermissionGranted stream\<close> is
  \<open>None\<close> when the callback returns and \<open>Some err\<close> when it throws \<open>err\<close>.
\<close>

definition tryBlock ::
  "Navigator \<Rightarrow> (MediaStream \<Rightarrow> js_value option) \<Rightarrow> Dialog \<Rightarrow> Dialog \<times> completion" where
  "tryBlock navigator onPermissionGranted d =
     (case mediaDevices navigator of
        None \<Rightarrow> (d, Threw NOT_SUPPORTED_Error)
      | Some md \<Rightarrow>
          (case getDisplayMedia md of
             None \<Rightarrow> (d, Threw NOT_SUPPORTED_Error)
           | Some f \<Rightarrow>
               (let d1 = emit (CallGetDisplayMedia DISPLAY_CONSTRAINTS) d in
                case f DISPLAY_CONSTRAINTS of
                  NeverSettles \<Rightarrow> (d1, Suspended)
                | Rejected err \<Rightarrow> (d1, Threw err)
                | Resolved stream \<Rightarrow>
                    (case getVideoTracks stream of
                       [] \<Rightarrow> (d1, Threw undefined_TypeError)
                     | track # _ \<Rightarrow>
                         (let d2 = emit (AddEventListener track ''ended'') d1;
                              d3 = emit (CallOnPermissionGranted stream) d2
                          in case onPermissionGranted stream of
                               None \<Rightarrow> (d3, Completed)
                             | Some err \<Rightarrow> (d3, Threw err))))))"

subsection \<open>\<open>catch\<close>, \<open>finally\<close> and the whole request\<close>

definition catchBlock :: "Navigator \<Rightarrow> js_value \<Rightarrow> Dialog \<Rightarrow> Dialog" where
  "catchBlock navigator err d =
     (let errorInfo = getErrorInfo navigator err;
          d1 = setError (Some errorInfo) d
      in emit (ConsoleError err errorInfo) d1)"

definition finallyBlock :: "Dialog \<Rightarrow> Dialog" where
  "finallyBlock d = setIsRequesting False d"

definition requestScreenShare ::
  "Navigator \<Rightarrow> (MediaStream \<Rightarrow> js_value option) \<Rightarrow> Dialog \<Rightarrow> Dialog" where
  "requestScreenShare navigator onPermissionGranted d =
     (let d1 = setIsRequesting True d;
          d2 = setError None d1
      in case tryBlock navigator onPermissionGranted d2 of
           (d3, Completed) \<Rightarrow> finallyBlock d3
         | (d3, Threw err) \<Rightarrow> finallyBlock (catchBlock navigator err d3)
         | (d3, Suspended) \<Rightarrow> d3)"

text \<open>The calls a request has added to the trace of the state it started from.\<close>

definition emitted :: "Dialog \<Rightarrow> Dialog \<Rightarrow> event list" where
  "emitted d d' = drop (length (trace d)) (trace d')"

section \<open>The retry trigger and overlapping requests\<close>

text \<open>
  The ``Try Again'' button (lines 279 to 297) is rendered under \<open>error && errorStyling\<close>,
  where \<open>errorStyling\<close> is non-null exactly when \<open>error\<close> is, and carries
  \<open>disabled={isRequesting}\<close>.
\<close>

definition retryRendered :: "Dialog \<Rightarrow> bool" where
  "retryRendered d = (error d \<noteq> None)"

definition retryDisabled :: "Dialog \<Rightarrow> bool" where
  "retryDisabled d = isRequesting d"

text \<open>
  Modelled from the spec: the component \<open>GlassButton\<close> is not among the sources. The spec
  has the retry trigger disabled while a request is in flight, so a click reaches
  \<open>onClick\<close> only on a button that is rendered and not disabled.
\<close>

definition retryClickable :: "Dialog \<Rightarrow> bool" where
  "retryClickable d = (retryRendered d \<and> \<not> retryDisabled d)"

text \<open>
  An \<open>async\<close> function runs up to its first \<open>await\<close> within the call and the rest when
  the awaited promise settles. \<open>requestScreenShare_begin\<close> is the first part: it
  returns the state and whether a platform request is now awaited.
  \<open>requestScreenShare_resume\<close> is the second part, given how the promise settled.
\<close>

definition requestScreenShare_begin :: "Navigator \<Rightarrow> Dialog \<Rightarrow> Dialog \<times> bool" where
  "requestScreenShare_begin navigator d =
     (let d1 = setIsRequesting True d;
          d2 = setError None d1
      in case mediaDevices navigator of
           None \<Rightarrow> (finallyBlock (catchBlock navigator NOT_SUPPORTED_Error d2), False)
         | Some md \<Rightarrow>
             (case getDisplayMedia md of
                None \<Rightarrow> (finallyBlock (catchBlock navigator NOT_SUPPORTED_Error d2), False)
              | Some f \<Rightarrow> (emit (CallGetDisplayMedia DISPLAY_CONSTRAINTS) d2, True)))"

definition requestScreenShare_resume ::
  "Navigator \<Rightarrow> (MediaStream \<Rightarrow> js_value option) \<Rightarrow> promise_outcome \<Rightarrow> Dialog \<Rightarrow> Dialog" where
  "requestScreenShare_resume navigator onPermissionGranted outcome d =
     (case outcome of
        NeverSettles \<Rightarrow> d
      | Rejected err \<Rightarrow> finallyBlock (catchBlock navigator err d)
      | Resolved stream \<Rightarrow>
          (case getVideoTracks stream of
             [] \<Rightarrow> finallyBlock (catchBlock navigator undefined_TypeError d)
           | track # _ \<Rightarrow>
               (let d2 = emit (AddEventListener track ''ended'') d;
                    d3 = emit (CallOnPermissionGranted stream) d2
                in case onPermissionGranted stream of
                     None \<Rightarrow> finallyBlock d3
                   | Some err \<Rightarrow> finallyBlock (catchBlock navigator err d3))))"

text \<open>
  The mounted component: its state, the \<open>onPermissionGranted\<close> prop of the latest
  render, and the platform requests that have been issued and have not settled yet,
  each with the callback that its \<open>requestScreenShare\<close> closed over.
\<close>

record Mounted =
  dialog :: Dialog
  onPermissionGranted_prop :: "MediaStream \<Rightarrow> js_value option"
  pending :: "(MediaStream \<Rightarrow> js_value option) list"

definition inFlight :: "Mounted \<Rightarrow> nat" where
  "inFlight m = length (pending m)"

text \<open>
  What can happen to the mounted component.
  \<^item> The user clicks the retry button.
  \<^item> The effect of lines 123 to 125 runs again. Its dependency is
    \<open>requestScreenShare\<close>, which \<open>useCallback\<close> renews whenever the parent passes
    another \<open>onPermissionGranted\<close>; a development build in strict mode also runs it
    twice on mount, with the same callback. The effect calls \<open>requestScreenShare\<close>
    with no condition.
  \<^item> A pending platform request, given by its position among the pending ones, settles.
\<close>

datatype happening =
    ClickTryAgain
  | EffectReruns "MediaStream \<Rightarrow> js_value option"
  | PromiseSettles nat promise_outcome

fun isEffectRerun :: "happening \<Rightarrow> bool" where
  "isEffectRerun (EffectReruns cb) = True"
| "isEffectRerun other = False"

definition startRequest :: "Navigator \<Rightarrow> Mounted \<Rightarrow> Mounted" where
  "startRequest navigator m =
     (case requestScreenShare_begin navigator (dialog m) of
        (d, awaiting) \<Rightarrow>
          m\<lparr> dialog := d,
             pending :=
               (if awaiting then pending m @ [onPermissionGranted_prop m] else pending m) \<rparr>)"

text \<open>The first run of the effect of lines 123 to 125, when the component mounts.\<close>

definition mount :: "Navigator \<Rightarrow> (MediaStream \<Rightarrow> js_value option) \<Rightarrow> Mounted" where
  "mount navigator onPermissionGranted =
     startRequest navigator
       \<lparr> dialog = initialDialog, onPermissionGranted_prop = onPermissionGranted, pending = [] \<rparr>"

definition step :: "Navigator \<Rightarrow> Mounted \<Rightarrow> happening \<Rightarrow> Mounted" where
  "step navigator m h =
     (case h of
        ClickTryAgain \<Rightarrow>
          (if retryClickable (dialog m) then startRequest navigator m else m)
      | EffectReruns onPermissionGranted \<Rightarrow>
          startRequest navigator (m\<lparr> onPermissionGranted_prop := onPermissionGranted \<rparr>)
      | PromiseSettles i outcome \<Rightarrow>
          (if i < length (pending m) \<and> outcome \<noteq> NeverSettles then
             m\<lparr> dialog :=
                  requestScreenShare_resume navigator (pending m ! i) outcome (dialog m),
                pending := take i (pending m) @ drop (Suc i) (pending m) \<rparr>
           else m))"

definition run ::
  "Navigator \<Rightarrow> (MediaStream \<Rightarrow> js_value option) \<Rightarrow> happening list \<Rightarrow> Mounted" where
  "run navigator onPermissionGranted hs =
     foldl (step navigator) (mount navigator onPermissionGranted) hs"

section \<open>Troubleshooting content\<close>

text \<open>
  Strings are lists of bytes here: a character outside ASCII is written as its UTF-8
  bytes (the padlock, globe and no-entry emoji of the titles, the arrows of one item,
  the bullet of the rendered list).
\<close>

record TroubleshootingEntry =
  title :: string
  items :: "string list"

definition troubleshootingData :: "(string \<times> TroubleshootingEntry) list" where
  "troubleshootingData =
     [ (HTTPS ERROR_TYPES,
        \<lparr> title = [CHR 0xF0, CHR 0x9F, CHR 0x94, CHR 0x92] @ '' HTTPS Required'',
          items =
            [ ''Access this app via https:// instead of http://'',
              ''If developing locally, use localhost (exempt from HTTPS requirement)'',
              ''Deploy to a hosting service that provides HTTPS (Vercel, Netlify, GitHub Pages)'' ] \<rparr>),
       (NOT_SUPPORTED ERROR_TYPES,
        \<lparr> title = [CHR 0xF0, CHR 0x9F, CHR 0x8C, CHR 0x90] @ '' Browser Compatibility'',
          items =
            [ ''Update your browser to the latest version'',
              ''Use Chrome 72+, Edge 79+, Firefox 66+, or Safari 13+'',
              ''Enable JavaScript if disabled'' ] \<rparr>),
       (PERMISSION ERROR_TYPES,
        \<lparr> title = [CHR 0xF0, CHR 0x9F, CHR 0x9A, CHR 0xAB] @ '' Permission Issues'',
          items =
            [ ''Click 'Share' when the screen sharing dialog appears'',
              ''Select your game window or entire screen'',
              ''Make sure to select 'Share audio' if you want game sounds'',
              ''Check browser settings '' @ [CHR 0xE2, CHR 0x86, CHR 0x92]
                @ '' Privacy & Security '' @ [CHR 0xE2, CHR 0x86, CHR 0x92]
                @ '' Screen sharing'' ] \<rparr>),
       (GENERAL ERROR_TYPES,
        \<lparr> title = ''General Troubleshooting'',
          items =
            [ ''Make sure your game is running and visible'',
              ''Try selecting 'Entire Screen' instead of a specific window'',
              ''Close other screen recording/sharing applications'',
              ''Try using a different browser or restarting your browser'' ] \<rparr>) ]"

text \<open>
  The object that \<open>getErrorStyling\<close> returns. Its fields \<open>text\<close>, \<open>title\<close> and \<open>list\<close>
  are \<open>text_class\<close>, \<open>title_class\<close> and \<open>list_class\<close> here.
\<close>

record TroubleshootingStyling =
  bg :: string
  title_class :: string
  list_class :: string

record ErrorStyling =
  container :: string
  text_class :: string
  troubleshooting :: TroubleshootingStyling

definition getErrorStyling :: "bool \<Rightarrow> ErrorStyling" where
  "getErrorStyling isSecurityIssue =
     \<lparr> container = ''border rounded-lg p-4 '' @
         (if isSecurityIssue then ''bg-orange-900/20 border-orange-500/30''
          else ''bg-red-900/20 border-red-500/30''),
       text_class = ''text-sm '' @ (if isSecurityIssue then ''text-orange-400'' else ''text-red-400''),
       troubleshooting =
         \<lparr> bg = ''border rounded-lg p-3 '' @
             (if isSecurityIssue then ''bg-orange-900/20 border-orange-500/30''
              else ''bg-red-900/20 border-red-500/30''),
           title_class = ''text-xs font-semibold mb-2 '' @
             (if isSecurityIssue then ''text-orange-400'' else ''text-red-400''),
           list_class = ''text-xs space-y-1 '' @
             (if isSecurityIssue then ''text-orange-300'' else ''text-red-300'') \<rparr> \<rparr>"

text \<open>The element that \<open>getTroubleshootingContent\<close> renders: its classes and its texts.\<close>

record TroubleshootingView =
  view_class :: string
  heading_class :: string
  heading :: string
  list_items_class :: string
  list_items :: "string list"

datatype render_error = TypeError

text \<open>
  \<open>troubleshootingData[error.type]\<close> is \<open>undefined\<close> for a key the table does not
  have, and reading \<open>content.title\<close> then throws a \<open>TypeError\<close>. The result is the thrown
  error, \<open>null\<close> (no error to explain), or the rendered element.
\<close>

definition getTroubleshootingContent :: "Dialog \<Rightarrow> render_error + TroubleshootingView option" where
  "getTroubleshootingContent d =
     (case error d of
        None \<Rightarrow> Inr None
      | Some e \<Rightarrow>
          (case map_of troubleshootingData (type e) of
             None \<Rightarrow> Inl TypeError
           | Some content \<Rightarrow>
               (let isSecurityIssue = (type e = HTTPS ERROR_TYPES);
                    styling = getErrorStyling isSecurityIssue
                in Inr (Some
                     \<lparr> view_class = bg (troubleshooting styling),
                       heading_class = title_class (troubleshooting styling),
                       heading = title content,
                       list_items_class = list_class (troubleshooting styling),
                       list_items =
                         map (\<lambda>item. [CHR 0xE2, CHR 0x80, CHR 0xA2] @ '' '' @ item) (items content) \<rparr>))))"

text \<open>
  Whether the table has, under a key, an entry with a title and at least one item.
\<close>

definition hasEntry :: "string \<Rightarrow> bool" where
  "hasEntry key =
     (case map_of troubleshootingData key of
        None \<Rightarrow> False
      | Some content \<Rightarrow> title content \<noteq> [] \<and> items content \<noteq> [])"

section \<open>Reading messages\<close>

text \<open>
  \<open>includes_str s sub\<close> is JavaScript's \<open>s.includes(sub)\<close>; \<open>toLowerCase\<close> lowers the
  ASCII capitals, which is all that the messages of this component contain.
\<close>

definition toLowerCase_char :: "char \<Rightarrow> char" where
  "toLowerCase_char c =
     (if CHR ''A'' \<le> c \<and> c \<le> CHR ''Z'' then char_of (of_char c + (32::nat)) else c)"

definition toLowerCase :: "string \<Rightarrow> string" where
  "toLowerCase s = map toLowerCase_char s"

fun includes_str :: "string \<Rightarrow> string \<Rightarrow> bool" where
  "includes_str [] sub = (sub = [])"
| "includes_str (c # cs) sub = (take (length sub) (c # cs) = sub \<or> includes_str cs sub)"

section \<open>Reading traces\<close>

text \<open>
  Whether the environment offers \<open>navigator.mediaDevices.getDisplayMedia\<close>, and how the
  platform request of this environment settles when it is made.
\<close>

definition hasGetDisplayMedia :: "Navigator \<Rightarrow> bool" where
  "hasGetDisplayMedia navigator =
     (case mediaDevices navigator of
        None \<Rightarrow> False
      | Some md \<Rightarrow> (case getDisplayMedia md of None \<Rightarrow> False | Some f \<Rightarrow> True))"

definition platformOutcome :: "Navigator \<Rightarrow> promise_outcome" where
  "platformOutcome navigator =
     (case mediaDevices navigator of
        None \<Rightarrow> NeverSettles
      | Some md \<Rightarrow>
          (case getDisplayMedia md of
             None \<Rightarrow> NeverSettles
           | Some f \<Rightarrow> f DISPLAY_CONSTRAINTS))"

text \<open>A request stays in flight for ever when the platform request is made and never settles.\<close>

definition staysInFlight :: "Navigator \<Rightarrow> bool" where
  "staysInFlight navigator =
     (hasGetDisplayMedia navigator \<and> platformOutcome navigator = NeverSettles)"

fun isSetError :: "event \<Rightarrow> bool" where
  "isSetError (SetError e) = True"
| "isSetError other = False"

fun isPlatformCall :: "event \<Rightarrow> bool" where
  "isPlatformCall (CallGetDisplayMedia c) = True"
| "isPlatformCall other = False"

fun isAddEventListener :: "event \<Rightarrow> bool" where
  "isAddEventListener (AddEventListener t n) = True"
| "isAddEventListener other = False"

fun isGrantCall :: "event \<Rightarrow> bool" where
  "isGrantCall (CallOnPermissionGranted s) = True"
| "isGrantCall other = False"

section \<open>Example environments\<close>

text \<open>Concrete environments and streams on which the properties below are run.\<close>

definition example_stream :: MediaStream where
  "example_stream =
     \<lparr> stream_id = ''screen-1'',
       getVideoTracks = [\<lparr> track_id = ''video-1'', track_label = ''Entire screen'' \<rparr>] \<rparr>"

definition navigator_insecure :: Navigator where
  "navigator_insecure = \<lparr> mediaDevices = None \<rparr>"

definition navigator_old_browser :: Navigator where
  "navigator_old_browser = \<lparr> mediaDevices = Some \<lparr> getDisplayMedia = None \<rparr> \<rparr>"

definition navigator_granting :: Navigator where
  "navigator_granting =
     \<lparr> mediaDevices = Some \<lparr> getDisplayMedia = Some (\<lambda>c. Resolved example_stream) \<rparr> \<rparr>"

definition navigator_denying :: Navigator where
  "navigator_denying =
     \<lparr> mediaDevices = Some
         \<lparr> getDisplayMedia =
             Some (\<lambda>c. Rejected (DOMException ''NotAllowedError'' ''Permission denied'')) \<rparr> \<rparr>"

definition callback_returns :: "MediaStream \<Rightarrow> js_value option" where
  "callback_returns stream = None"

section \<open>Properties of \<open>getErrorInfo\<close>\<close>

lemma getErrorInfo_capable:
  assumes "mediaDevices navigator = Some md" and "getDisplayMedia md = Some f"
  shows "getErrorInfo navigator (DOMException name msg) = domExceptionInfo name"
  using assms by simp

lemma domExceptionInfo_table:
  "domExceptionInfo ''NotAllowedError'' =
     \<lparr> type = PERMISSION ERROR_TYPES, message = ''Screen sharing access denied'' \<rparr>"
  "domExceptionInfo ''AbortError'' =
     \<lparr> type = PERMISSION ERROR_TYPES, message = ''Screen sharing was cancelled'' \<rparr>"
  "domExceptionInfo ''NotFoundError'' =
     \<lparr> type = GENERAL ERROR_TYPES, message = ''No screen available for sharing'' \<rparr>"
  "domExceptionInfo ''NotReadableError'' =
     \<lparr> type = GENERAL ERROR_TYPES, message = ''Screen is already being captured'' \<rparr>"
  "domExceptionInfo ''OverconstrainedError'' =
     \<lparr> type = GENERAL ERROR_TYPES, message = ''Screen doesn't meet capture requirements'' \<rparr>"
  "domExceptionInfo ''SecurityError'' =
     \<lparr> type = HTTPS ERROR_TYPES, message = ''Security error accessing screen'' \<rparr>"
  by (simp_all add: domExceptionInfo_def)

lemma message_phrases:
  "includes_str (toLowerCase ''Screen sharing access denied'') ''access denied''"
  "includes_str (toLowerCase ''Screen sharing was cancelled'') ''cancelled''"
  "includes_str (toLowerCase ''No screen available for sharing'') ''no screen available''"
  "includes_str (toLowerCase ''Screen is already being captured'') ''already being captured''"
  "includes_str (toLowerCase ''Screen doesn't meet capture requirements'')
     ''doesn't meet capture requirements''"
  "includes_str (toLowerCase ''Security error accessing screen'') ''security error accessing screen''"
  by code_simp+

lemma includes_str_self: "includes_str s s"
  by (cases s) simp_all

lemma includes_str_suffix: "includes_str (p @ s) s"
  by (induction p) (simp_all add: includes_str_self)

text \<open>
  Within a request, a \<open>DOMException\<close> reaches \<open>getErrorInfo\<close> only where the
  environment offers \<open>getDisplayMedia\<close>: without it the \<open>try\<close> block throws the
  plain \<open>Error("NOT_SUPPORTED")\<close> before anything else can throw.
\<close>

lemma thrown_DOMException_capable:
  assumes "snd (tryBlock navigator cb d) = Threw (DOMException name msg)"
  shows "hasGetDisplayMedia navigator"
  using assms
  by (auto simp add: tryBlock_def hasGetDisplayMedia_def NOT_SUPPORTED_Error_def
        split: option.splits)

text \<open>
  C1. In an environment that offers \<open>navigator.mediaDevices.getDisplayMedia\<close> (the first
  two rows of the decision list do not apply), a \<open>DOMException\<close> with one of the six
  recognised names is classified as the table says: \<open>NotAllowedError\<close> and
  \<open>AbortError\<close> give \<open>permission\<close>, \<open>NotFoundError\<close>, \<open>NotReadableError\<close> and
  \<open>OverconstrainedError\<close> give \<open>general\<close>, \<open>SecurityError\<close> gives \<open>https\<close>, each
  with the message of the source, whatever the exception's own message is. Every such
  message contains the phrase by which the table names it, up to letter case.
\<close>

theorem getErrorInfo_recognized_names:
  assumes "mediaDevices navigator = Some md" and "getDisplayMedia md = Some f"
  shows
    "(getErrorInfo navigator (DOMException ''NotAllowedError'' msg) =
        \<lparr> type = PERMISSION ERROR_TYPES, message = ''Screen sharing access denied'' \<rparr>
      \<and> includes_str
          (toLowerCase (message (getErrorInfo navigator (DOMException ''NotAllowedError'' msg))))
          ''access denied'')
     \<and> (getErrorInfo navigator (DOMException ''AbortError'' msg) =
        \<lparr> type = PERMISSION ERROR_TYPES, message = ''Screen sharing was cancelled'' \<rparr>
      \<and> includes_str
          (toLowerCase (message (getErrorInfo navigator (DOMException ''AbortError'' msg))))
          ''cancelled'')
     \<and> (getErrorInfo navigator (DOMException ''NotFoundError'' msg) =
        \<lparr> type = GENERAL ERROR_TYPES, message = ''No screen available for sharing'' \<rparr>
      \<and> includes_str
          (toLowerCase (message (getErrorInfo navigator (DOMException ''NotFoundError'' msg))))
          ''no screen available'')
     \<and> (getErrorInfo navigator (DOMException ''NotReadableError'' msg) =
        \<lparr> type = GENERAL ERROR_TYPES, message = ''Screen is already being captured'' \<rparr>
      \<and> includes_str
          (toLowerCase (message (getErrorInfo navigator (DOMException ''NotReadableError'' msg))))
          ''already being captured'')
     \<and> (getErrorInfo navigator (DOMException ''OverconstrainedError'' msg) =
        \<lparr> type = GENERAL ERROR_TYPES, message = ''Screen doesn't meet capture requirements'' \<rparr>
      \<and> includes_str
          (toLowerCase (message (getErrorInfo navigator (DOMException ''OverconstrainedError'' msg))))
          ''doesn't meet capture requirements'')
     \<and> (getErrorInfo navigator (DOMException ''SecurityError'' msg) =
        \<lparr> type = HTTPS ERROR_TYPES, message = ''Security error accessing screen'' \<rparr>
      \<and> includes_str
          (toLowerCase (message (getErrorInfo navigator (DOMException ''SecurityError'' msg))))
          ''security error accessing screen'')"
  by (simp only: getErrorInfo_capable [OF assms] domExceptionInfo_table
        ErrorInfo.select_convs message_phrases simp_thms)

theorem getErrorInfo_recognized_names_witness:
  "mediaDevices navigator_denying =
     Some \<lparr> getDisplayMedia =
              Some (\<lambda>c. Rejected (DOMException ''NotAllowedError'' ''Permission denied'')) \<rparr>
   \<and> getErrorInfo navigator_denying (DOMException ''NotAllowedError'' ''Permission denied'') =
       \<lparr> type = ''permission'', message = ''Screen sharing access denied'' \<rparr>
   \<and> getErrorInfo navigator_denying (DOMException ''SecurityError'' ''Permission denied'') =
       \<lparr> type = ''https'', message = ''Security error accessing screen'' \<rparr>"
  using getErrorInfo_recognized_names
    [of navigator_denying
        "\<lparr> getDisplayMedia =
             Some (\<lambda>c. Rejected (DOMException ''NotAllowedError'' ''Permission denied'')) \<rparr>"
        "\<lambda>c. Rejected (DOMException ''NotAllowedError'' ''Permission denied'')"
        "''Permission denied''"]
  by (simp add: navigator_denying_def ERROR_TYPES_def)

text \<open>
  C2. Whatever was thrown, an environment without \<open>navigator.mediaDevices\<close> gives
  \<open>https\<close>, and an environment with \<open>navigator.mediaDevices\<close> but without its
  \<open>getDisplayMedia\<close> gives \<open>not-supported\<close>. Both checks come before any look at the
  exception: a \<open>DOMException\<close> with a recognised name is classified by the environment
  there, not by its name.
\<close>

theorem getErrorInfo_environment_first:
  "getErrorInfo \<lparr> mediaDevices = None \<rparr> err =
     \<lparr> type = HTTPS ERROR_TYPES,
       message = ''Screen sharing requires a secure connection (HTTPS)'' \<rparr>
   \<and> getErrorInfo \<lparr> mediaDevices = Some \<lparr> getDisplayMedia = None \<rparr> \<rparr> err =
     \<lparr> type = NOT_SUPPORTED ERROR_TYPES,
       message = ''Screen sharing not supported in this browser'' \<rparr>
   \<and> type (getErrorInfo \<lparr> mediaDevices = None \<rparr> (DOMException name msg)) = ''https''
   \<and> type (getErrorInfo \<lparr> mediaDevices = Some \<lparr> getDisplayMedia = None \<rparr> \<rparr>
        (DOMException name msg)) = ''not-supported''"
  by (simp add: ERROR_TYPES_def)

lemma message_phrase_default:
  "includes_str (toLowerCase ''Failed to access screen'') ''failed to access''"
  by code_simp

lemma getErrorInfo_type:
  "type (getErrorInfo navigator err) \<in> {''https'', ''not-supported'', ''permission'', ''general''}"
  by (simp add: domExceptionInfo_def ERROR_TYPES_def split: option.split js_value.split)

text \<open>
  C3. \<open>getErrorInfo\<close> has no step that can throw (it reads two properties of the
  environment, tests \<open>instanceof\<close> and reads \<open>err.name\<close> only of a \<open>DOMException\<close>), so
  it is a total function here. For every environment and every thrown value, be it
  \<open>null\<close>, \<open>undefined\<close>, a primitive, a plain object or an error object, the type of
  the result is one of the four strings of \<open>ERROR_TYPES\<close>. Where the environment offers
  \<open>getDisplayMedia\<close> and the value is not a \<open>DOMException\<close>, the result is \<open>general\<close>
  with the message ``Failed to access screen''.
\<close>

theorem getErrorInfo_total:
  "type (getErrorInfo navigator err) \<in> {''https'', ''not-supported'', ''permission'', ''general''}
   \<and> (hasGetDisplayMedia navigator \<and> (\<forall>name msg. err \<noteq> DOMException name msg) \<longrightarrow>
        getErrorInfo navigator err =
          \<lparr> type = GENERAL ERROR_TYPES, message = ''Failed to access screen'' \<rparr>
        \<and> includes_str (toLowerCase (message (getErrorInfo navigator err))) ''failed to access'')"
proof -
  have "getErrorInfo navigator err =
          \<lparr> type = GENERAL ERROR_TYPES, message = ''Failed to access screen'' \<rparr>"
    if "hasGetDisplayMedia navigator" and "\<forall>name msg. err \<noteq> DOMException name msg"
    using that by (auto simp add: hasGetDisplayMedia_def split: option.splits js_value.splits)
  then show ?thesis
    using getErrorInfo_type [of navigator err] message_phrase_default by auto
qed

theorem getErrorInfo_total_witness:
  "hasGetDisplayMedia navigator_denying
   \<and> getErrorInfo navigator_denying JSNull =
       \<lparr> type = ''general'', message = ''Failed to access screen'' \<rparr>
   \<and> getErrorInfo navigator_denying JSUndefined =
       \<lparr> type = ''general'', message = ''Failed to access screen'' \<rparr>
   \<and> getErrorInfo navigator_denying (JSObject [(''name'', JSString ''NotAllowedError'')]) =
       \<lparr> type = ''general'', message = ''Failed to access screen'' \<rparr>"
  using getErrorInfo_total [of navigator_denying JSNull]
        getErrorInfo_total [of navigator_denying JSUndefined]
        getErrorInfo_total [of navigator_denying "JSObject [(''name'', JSString ''NotAllowedError'')]"]
  by (simp add: navigator_denying_def hasGetDisplayMedia_def ERROR_TYPES_def)

text \<open>
  C5, as stated, fails: the \<open>switch\<close> on the name is under
  \<open>err instanceof DOMException\<close> (line 50). An error object that is not a
  \<open>DOMException\<close>, such as the \<open>TypeError\<close> of line 108, has a name that is none of
  the six, and gets the generic message, which does not contain its name.
\<close>

theorem getErrorInfo_other_names_counterexample:
  "getErrorInfo navigator_granting
     (JSError ''TypeError'' ''Cannot read properties of undefined (reading 'addEventListener')'') =
     \<lparr> type = ''general'', message = ''Failed to access screen'' \<rparr>
   \<and> \<not> includes_str
        (message (getErrorInfo navigator_granting
          (JSError ''TypeError''
             ''Cannot read properties of undefined (reading 'addEventListener')'')))
        ''TypeError''"
  by (simp add: navigator_granting_def ERROR_TYPES_def)

text \<open>
  C5, amended. In an environment that offers \<open>getDisplayMedia\<close>, a \<open>DOMException\<close>
  whose name is none of the six recognised ones gives \<open>general\<close> with the message
  ``Screen sharing error: '' followed by the name, so the message contains the name
  as it is. An error object that is not a \<open>DOMException\<close> gives \<open>general\<close> with the
  generic message, whatever its name.
\<close>

theorem getErrorInfo_other_names:
  assumes "mediaDevices navigator = Some md" and "getDisplayMedia md = Some f"
    and "name \<notin> {''NotAllowedError'', ''NotFoundError'', ''NotReadableError'',
                  ''OverconstrainedError'', ''SecurityError'', ''AbortError''}"
  shows "getErrorInfo navigator (DOMException name msg) =
           \<lparr> type = GENERAL ERROR_TYPES, message = ''Screen sharing error: '' @ name \<rparr>
         \<and> includes_str (message (getErrorInfo navigator (DOMException name msg))) name
         \<and> getErrorInfo navigator (JSError other_name other_msg) =
           \<lparr> type = GENERAL ERROR_TYPES, message = ''Failed to access screen'' \<rparr>"
proof -
  have "getErrorInfo navigator (DOMException name msg) =
          \<lparr> type = GENERAL ERROR_TYPES, message = ''Screen sharing error: '' @ name \<rparr>"
    using assms by (simp add: domExceptionInfo_def)
  moreover have "getErrorInfo navigator (JSError other_name other_msg) =
           \<lparr> type = GENERAL ERROR_TYPES, message = ''Failed to access screen'' \<rparr>"
    using assms by simp
  ultimately show ?thesis
    by (simp only: ErrorInfo.select_convs includes_str_suffix simp_thms)
qed

theorem getErrorInfo_other_names_witness:
  "''InvalidStateError'' \<notin> {''NotAllowedError'', ''NotFoundError'', ''NotReadableError'',
                  ''OverconstrainedError'', ''SecurityError'', ''AbortError''}
   \<and> getErrorInfo navigator_denying (DOMException ''InvalidStateError'' ''no user activation'') =
       \<lparr> type = ''general'', message = ''Screen sharing error: InvalidStateError'' \<rparr>
   \<and> getErrorInfo navigator_denying (JSError ''TypeError'' ''not a function'') =
       \<lparr> type = ''general'', message = ''Failed to access screen'' \<rparr>"
  using getErrorInfo_other_names
    [of navigator_denying
        "\<lparr> getDisplayMedia =
             Some (\<lambda>c. Rejected (DOMException ''NotAllowedError'' ''Permission denied'')) \<rparr>"
        "\<lambda>c. Rejected (DOMException ''NotAllowedError'' ''Permission denied'')"
        "''InvalidStateError''" "''no user activation''" "''TypeError''" "''not a function''"]
  by (simp add: navigator_denying_def ERROR_TYPES_def)

section \<open>Properties of \<open>requestScreenShare\<close>\<close>

lemmas request_defs =
  requestScreenShare_def tryBlock_def catchBlock_def finallyBlock_def
  setError_def setIsRequesting_def emit_def emitted_def Let_def

text \<open>
  The request as a whole is its synchronous part followed, when a platform request is
  awaited, by the part that runs once the promise has settled.
\<close>

lemma requestScreenShare_split:
  "requestScreenShare navigator cb d =
     (case requestScreenShare_begin navigator d of
        (d1, awaiting) \<Rightarrow>
          if awaiting then requestScreenShare_resume navigator cb (platformOutcome navigator) d1
          else d1)"
  by (simp add: request_defs requestScreenShare_begin_def requestScreenShare_resume_def
        platformOutcome_def
      split: option.split promise_outcome.split list.split)

text \<open>
  C4. Where the environment lacks \<open>navigator.mediaDevices\<close> or its
  \<open>getDisplayMedia\<close>, a request ends at once with the flag cleared and with the
  error that \<open>getErrorInfo\<close> gives for the thrown \<open>Error("NOT_SUPPORTED")\<close>: of type
  \<open>https\<close> when \<open>mediaDevices\<close> is missing and \<open>not-supported\<close> otherwise. The calls it
  makes are the two state resets, the error, the console message and the reset of the
  flag; the platform function is not among them.
\<close>

theorem requestScreenShare_without_capability:
  assumes "\<not> hasGetDisplayMedia navigator"
  shows
    "error (requestScreenShare navigator onPermissionGranted d) =
       Some (getErrorInfo navigator NOT_SUPPORTED_Error)
     \<and> type (getErrorInfo navigator NOT_SUPPORTED_Error) =
         (if mediaDevices navigator = None then HTTPS ERROR_TYPES else NOT_SUPPORTED ERROR_TYPES)
     \<and> \<not> isRequesting (requestScreenShare navigator onPermissionGranted d)
     \<and> emitted d (requestScreenShare navigator onPermissionGranted d) =
         [ SetIsRequesting True, SetError None,
           SetError (Some (getErrorInfo navigator NOT_SUPPORTED_Error)),
           ConsoleError NOT_SUPPORTED_Error (getErrorInfo navigator NOT_SUPPORTED_Error),
           SetIsRequesting False ]
     \<and> filter isPlatformCall (emitted d (requestScreenShare navigator onPermissionGranted d)) = []"
  using assms
  by (auto simp add: request_defs hasGetDisplayMedia_def split: option.splits)

theorem requestScreenShare_without_capability_witness:
  "\<not> hasGetDisplayMedia navigator_insecure
   \<and> \<not> hasGetDisplayMedia navigator_old_browser
   \<and> requestScreenShare navigator_insecure callback_returns initialDialog =
       \<lparr> isRequesting = False,
         error = Some \<lparr> type = ''https'',
                        message = ''Screen sharing requires a secure connection (HTTPS)'' \<rparr>,
         trace =
           [ SetIsRequesting True, SetError None,
             SetError (Some \<lparr> type = ''https'',
                        message = ''Screen sharing requires a secure connection (HTTPS)'' \<rparr>),
             ConsoleError (JSError ''Error'' ''NOT_SUPPORTED'')
               \<lparr> type = ''https'',
                 message = ''Screen sharing requires a secure connection (HTTPS)'' \<rparr>,
             SetIsRequesting False ] \<rparr>
   \<and> error (requestScreenShare navigator_old_browser callback_returns initialDialog) =
       Some \<lparr> type = ''not-supported'',
              message = ''Screen sharing not supported in this browser'' \<rparr>"
  using requestScreenShare_without_capability [of navigator_insecure callback_returns initialDialog]
        requestScreenShare_without_capability [of navigator_old_browser callback_returns initialDialog]
  by (simp add: navigator_insecure_def navigator_old_browser_def hasGetDisplayMedia_def
        initialDialog_def NOT_SUPPORTED_Error_def ERROR_TYPES_def request_defs)

lemma request_error:
  "error (requestScreenShare navigator cb d) =
     (case snd (tryBlock navigator cb (setError None (setIsRequesting True d))) of
        Threw err \<Rightarrow> Some (getErrorInfo navigator err)
      | Completed \<Rightarrow> None
      | Suspended \<Rightarrow> None)"
  by (simp add: request_defs split: option.split promise_outcome.split list.split)

text \<open>
  C6. From any state, also one that holds the error of an earlier attempt, the first
  two calls of a request are \<open>setIsRequesting(true)\<close> and \<open>setError(null)\<close>: the
  stored error is \<open>null\<close> from then on, and the platform request, if any, comes later.
  Among the later calls there is no \<open>setError\<close> when the request ends without error,
  and exactly one, with the error that is stored at the end, when it fails. A request
  fails exactly when its \<open>try\<close> block throws, and the stored error is then the
  classification of the thrown value.
\<close>

theorem requestScreenShare_error_lifecycle:
  "(\<exists>rest. emitted d (requestScreenShare navigator cb d) =
            SetIsRequesting True # SetError None # rest
       \<and> filter isSetError rest =
           (case error (requestScreenShare navigator cb d) of
              None \<Rightarrow> []
            | Some e \<Rightarrow> [SetError (Some e)]))
   \<and> error (setError None (setIsRequesting True d)) = None
   \<and> error (requestScreenShare navigator cb d) =
       (case snd (tryBlock navigator cb (setError None (setIsRequesting True d))) of
          Threw err \<Rightarrow> Some (getErrorInfo navigator err)
        | Completed \<Rightarrow> None
        | Suspended \<Rightarrow> None)"
proof -
  have "\<exists>rest. emitted d (requestScreenShare navigator cb d) =
            SetIsRequesting True # SetError None # rest
       \<and> filter isSetError rest =
           (case error (requestScreenShare navigator cb d) of
              None \<Rightarrow> []
            | Some e \<Rightarrow> [SetError (Some e)])"
    by (simp add: request_defs split: option.split promise_outcome.split list.split)
  moreover have "error (setError None (setIsRequesting True d)) = None"
    by (simp add: setError_def setIsRequesting_def emit_def)
  ultimately show ?thesis
    using request_error [of navigator cb d] by (intro conjI)
qed

section \<open>The flag \<open>isRequesting\<close> and overlapping requests\<close>

lemma startRequest_flag:
  "isRequesting (dialog (startRequest navigator m)) \<longrightarrow>
     error (dialog (startRequest navigator m)) = None"
  by (simp add: startRequest_def requestScreenShare_begin_def request_defs split: option.split)

lemma resume_flag:
  assumes "outcome \<noteq> NeverSettles"
  shows "\<not> isRequesting (requestScreenShare_resume navigator cb outcome d)"
  using assms
  by (simp add: requestScreenShare_resume_def request_defs
        split: option.split promise_outcome.split list.split)

lemma step_flag:
  assumes "isRequesting (dialog m) \<longrightarrow> error (dialog m) = None"
  shows "isRequesting (dialog (step navigator m h)) \<longrightarrow> error (dialog (step navigator m h)) = None"
proof (cases h)
  case ClickTryAgain
  with assms startRequest_flag [of navigator m] show ?thesis
    by (simp add: step_def)
next
  case (EffectReruns cb')
  with startRequest_flag [of navigator "m\<lparr> onPermissionGranted_prop := cb' \<rparr>"] show ?thesis
    by (simp add: step_def)
next
  case (PromiseSettles i outcome)
  with assms resume_flag [of outcome navigator "pending m ! i" "dialog m"] show ?thesis
    by (simp add: step_def)
qed

lemma run_snoc: "run navigator cb (hs @ [h]) = step navigator (run navigator cb hs) h"
  by (simp add: run_def)

text \<open>
  In every run the button is not rendered while the flag is on: the flag is set
  together with \<open>setError(null)\<close>, and an error is stored together with the reset of
  the flag.
\<close>

lemma run_flag:
  "isRequesting (dialog (run navigator cb hs)) \<longrightarrow> error (dialog (run navigator cb hs)) = None"
proof (induction hs rule: rev_induct)
  case Nil
  show ?case using startRequest_flag by (simp add: run_def mount_def)
next
  case (snoc h hs)
  show ?case unfolding run_snoc by (rule step_flag) (rule snoc.IH)
qed

lemma mount_inFlight:
  "inFlight (mount navigator cb) = (if isRequesting (dialog (mount navigator cb)) then 1 else 0)"
  by (simp add: inFlight_def mount_def startRequest_def requestScreenShare_begin_def
        initialDialog_def request_defs split: option.split)

lemma step_inFlight:
  assumes "inFlight m = (if isRequesting (dialog m) then 1 else 0)"
    and "\<not> isEffectRerun h"
  shows "inFlight (step navigator m h) =
           (if isRequesting (dialog (step navigator m h)) then 1 else 0)"
proof (cases h)
  case ClickTryAgain
  with assms show ?thesis
    by (auto simp add: inFlight_def step_def retryClickable_def retryDisabled_def
          startRequest_def requestScreenShare_begin_def request_defs
          split: option.splits if_splits)
next
  case (EffectReruns cb')
  with assms show ?thesis by simp
next
  case (PromiseSettles i outcome)
  show ?thesis
  proof (cases "i < length (pending m) \<and> outcome \<noteq> NeverSettles")
    case True
    with assms have "length (pending m) = 1" and "i = 0"
      by (auto simp add: inFlight_def split: if_splits)
    with True PromiseSettles resume_flag [of outcome navigator "pending m ! i" "dialog m"]
    show ?thesis
      by (simp add: inFlight_def step_def)
  next
    case False
    with assms PromiseSettles show ?thesis
      by (auto simp add: step_def)
  qed
qed

lemma run_inFlight:
  assumes "filter isEffectRerun hs = []"
  shows "inFlight (run navigator cb hs) =
           (if isRequesting (dialog (run navigator cb hs)) then 1 else 0)"
  using assms
proof (induction hs rule: rev_induct)
  case Nil
  show ?case by (simp add: run_def mount_inFlight)
next
  case (snoc h hs)
  from snoc.prems have hs: "filter isEffectRerun hs = []" and h: "\<not> isEffectRerun h"
    by (auto split: if_splits)
  show ?case unfolding run_snoc by (rule step_inFlight [OF snoc.IH [OF hs] h])
qed

lemma effect_rerun_inFlight:
  assumes "hasGetDisplayMedia navigator"
  shows "inFlight (step navigator m (EffectReruns cb')) = Suc (inFlight m)"
  using assms
  by (auto simp add: inFlight_def step_def startRequest_def requestScreenShare_begin_def
        hasGetDisplayMedia_def split: option.splits)

text \<open>
  C7, as stated, fails: the effect of lines 123 to 125 calls \<open>requestScreenShare\<close>
  with no look at the flag. When it runs again while the request of the mount is
  pending, two platform requests are pending.
\<close>

theorem isRequesting_lifecycle_counterexample:
  "\<not> inFlight (run navigator_granting callback_returns [EffectReruns callback_returns]) \<le> 1"
  by (simp add: inFlight_def run_def step_def mount_def startRequest_def
        requestScreenShare_begin_def navigator_granting_def)

text \<open>
  C7, amended. The first call of a request is \<open>setIsRequesting(true)\<close>, before the
  platform request, and the flag is not set again. Unless the platform request is made
  and never settles, that is on the success path and on every failure path,
  \<open>setIsRequesting(false)\<close> is called exactly once, as the last call, and the flag is
  off at the end. For the mounted component: in every run the retry button is not
  rendered while the flag is on. In a run of retry clicks and settlements in which the
  effect does not run again, at most one platform request is pending, the retry button
  is disabled exactly while one is pending, and a click cannot start another then.
  A further run of the effect, in an environment that offers \<open>getDisplayMedia\<close>, adds
  a pending platform request to those there are.
\<close>

theorem isRequesting_lifecycle:
  "(\<exists>rest. emitted d (requestScreenShare navigator cb d) = SetIsRequesting True # rest
       \<and> count_list rest (SetIsRequesting True) = 0
       \<and> count_list rest (SetIsRequesting False) = (if staysInFlight navigator then 0 else 1)
       \<and> (\<not> staysInFlight navigator \<longrightarrow> last rest = SetIsRequesting False))
   \<and> isRequesting (requestScreenShare navigator cb d) = staysInFlight navigator
   \<and> (isRequesting (dialog (run navigator cb hs)) \<longrightarrow>
        \<not> retryRendered (dialog (run navigator cb hs)))
   \<and> (filter isEffectRerun hs = [] \<longrightarrow>
        inFlight (run navigator cb hs) \<le> 1
        \<and> retryDisabled (dialog (run navigator cb hs)) = (inFlight (run navigator cb hs) = 1)
        \<and> (inFlight (run navigator cb hs) = 1 \<longrightarrow>
             \<not> retryClickable (dialog (run navigator cb hs))))
   \<and> (hasGetDisplayMedia navigator \<longrightarrow>
        inFlight (step navigator m (EffectReruns cb')) = Suc (inFlight m))"
proof -
  have one: "\<exists>rest. emitted d (requestScreenShare navigator cb d) = SetIsRequesting True # rest
       \<and> count_list rest (SetIsRequesting True) = 0
       \<and> count_list rest (SetIsRequesting False) = (if staysInFlight navigator then 0 else 1)
       \<and> (\<not> staysInFlight navigator \<longrightarrow> last rest = SetIsRequesting False)"
    by (simp add: request_defs staysInFlight_def hasGetDisplayMedia_def platformOutcome_def
          split: option.split promise_outcome.split list.split)
  have two: "isRequesting (requestScreenShare navigator cb d) = staysInFlight navigator"
    by (simp add: request_defs staysInFlight_def hasGetDisplayMedia_def platformOutcome_def
          split: option.split promise_outcome.split list.split)
  have three: "isRequesting (dialog (run navigator cb hs)) \<longrightarrow>
        \<not> retryRendered (dialog (run navigator cb hs))"
    using run_flag [of navigator cb hs] by (simp add: retryRendered_def)
  have four: "filter isEffectRerun hs = [] \<longrightarrow>
        inFlight (run navigator cb hs) \<le> 1
        \<and> retryDisabled (dialog (run navigator cb hs)) = (inFlight (run navigator cb hs) = 1)
        \<and> (inFlight (run navigator cb hs) = 1 \<longrightarrow>
             \<not> retryClickable (dialog (run navigator cb hs)))"
  proof
    assume "filter isEffectRerun hs = []"
    from run_inFlight [OF this, of navigator cb] show
      "inFlight (run navigator cb hs) \<le> 1
        \<and> retryDisabled (dialog (run navigator cb hs)) = (inFlight (run navigator cb hs) = 1)
        \<and> (inFlight (run navigator cb hs) = 1 \<longrightarrow>
             \<not> retryClickable (dialog (run navigator cb hs)))"
      by (simp add: retryDisabled_def retryClickable_def)
  qed
  have five: "hasGetDisplayMedia navigator \<longrightarrow>
        inFlight (step navigator m (EffectReruns cb')) = Suc (inFlight m)"
    using effect_rerun_inFlight by blast
  from one two three four five show ?thesis by (intro conjI)
qed

theorem isRequesting_lifecycle_witness:
  "\<not> staysInFlight navigator_denying
   \<and> hasGetDisplayMedia navigator_denying
   \<and> filter isEffectRerun
       [ PromiseSettles 0 (Rejected (DOMException ''NotAllowedError'' ''Permission denied'')),
         ClickTryAgain, ClickTryAgain ] = []
   \<and> retryClickable (dialog (run navigator_denying callback_returns
       [ PromiseSettles 0 (Rejected (DOMException ''NotAllowedError'' ''Permission denied'')) ]))
   \<and> isRequesting (dialog (run navigator_denying callback_returns
       [ PromiseSettles 0 (Rejected (DOMException ''NotAllowedError'' ''Permission denied'')),
         ClickTryAgain, ClickTryAgain ]))
   \<and> inFlight (run navigator_denying callback_returns
       [ PromiseSettles 0 (Rejected (DOMException ''NotAllowedError'' ''Permission denied'')),
         ClickTryAgain, ClickTryAgain ]) = 1
   \<and> \<not> retryClickable (dialog (run navigator_denying callback_returns
       [ PromiseSettles 0 (Rejected (DOMException ''NotAllowedError'' ''Permission denied'')),
         ClickTryAgain, ClickTryAgain ]))
   \<and> inFlight (step navigator_denying (mount navigator_denying callback_returns)
       (EffectReruns callback_returns)) = 2"
  using isRequesting_lifecycle
    [of initialDialog navigator_denying callback_returns
        "[ PromiseSettles 0 (Rejected (DOMException ''NotAllowedError'' ''Permission denied'')),
           ClickTryAgain, ClickTryAgain ]"
        "mount navigator_denying callback_returns" callback_returns]
  by (simp add: navigator_denying_def staysInFlight_def hasGetDisplayMedia_def
        platformOutcome_def inFlight_def run_def mount_def step_def startRequest_def
        requestScreenShare_begin_def requestScreenShare_resume_def initialDialog_def
        retryClickable_def retryRendered_def retryDisabled_def
        catchBlock_def finallyBlock_def setError_def setIsRequesting_def emit_def Let_def)

section \<open>A granted request and its constraints\<close>

text \<open>
  A stream from \<open>getDisplayMedia\<close> has a video track. For a stream without one the
  source has no guard: \<open>getVideoTracks()[0]\<close> is \<open>undefined\<close>, the \<open>TypeError\<close> is
  caught, and the request fails as \<open>general\<close> without calling the grant callback.
\<close>

lemma stream_without_video_track:
  assumes "mediaDevices navigator = Some md" and "getDisplayMedia md = Some f"
    and "f DISPLAY_CONSTRAINTS = Resolved stream" and "getVideoTracks stream = []"
  shows "error (requestScreenShare navigator cb d) =
           Some \<lparr> type = GENERAL ERROR_TYPES, message = ''Failed to access screen'' \<rparr>
         \<and> filter isGrantCall (emitted d (requestScreenShare navigator cb d)) = []"
  using assms by (simp add: request_defs undefined_TypeError_def)

text \<open>
  C8. When the platform request resolves with a stream that has a video track, the
  request registers one listener, for \<open>ended\<close> on the first video track of that
  stream, and calls \<open>onPermissionGranted\<close> once, with that stream. If the callback
  returns, these are all the calls besides the state resets, the platform request and
  the final reset of the flag, and the request ends with no error and the flag off.
\<close>

theorem requestScreenShare_granted:
  assumes "mediaDevices navigator = Some md" and "getDisplayMedia md = Some f"
    and "f DISPLAY_CONSTRAINTS = Resolved stream"
    and "getVideoTracks stream = track # tracks"
  shows
    "filter isAddEventListener (emitted d (requestScreenShare navigator onPermissionGranted d)) =
       [AddEventListener track ''ended'']
     \<and> filter isGrantCall (emitted d (requestScreenShare navigator onPermissionGranted d)) =
       [CallOnPermissionGranted stream]
     \<and> (onPermissionGranted stream = None \<longrightarrow>
          emitted d (requestScreenShare navigator onPermissionGranted d) =
            [ SetIsRequesting True, SetError None, CallGetDisplayMedia DISPLAY_CONSTRAINTS,
              AddEventListener track ''ended'', CallOnPermissionGranted stream,
              SetIsRequesting False ]
          \<and> error (requestScreenShare navigator onPermissionGranted d) = None
          \<and> \<not> isRequesting (requestScreenShare navigator onPermissionGranted d))"
  using assms by (simp add: request_defs split: option.split)

theorem requestScreenShare_granted_witness:
  "getVideoTracks example_stream = [\<lparr> track_id = ''video-1'', track_label = ''Entire screen'' \<rparr>]
   \<and> callback_returns example_stream = None
   \<and> requestScreenShare navigator_granting callback_returns initialDialog =
       \<lparr> isRequesting = False, error = None,
         trace =
           [ SetIsRequesting True, SetError None, CallGetDisplayMedia DISPLAY_CONSTRAINTS,
             AddEventListener \<lparr> track_id = ''video-1'', track_label = ''Entire screen'' \<rparr> ''ended'',
             CallOnPermissionGranted example_stream, SetIsRequesting False ] \<rparr>"
  using requestScreenShare_granted
    [of navigator_granting "\<lparr> getDisplayMedia = Some (\<lambda>c. Resolved example_stream) \<rparr>"
        "\<lambda>c. Resolved example_stream" example_stream
        "\<lparr> track_id = ''video-1'', track_label = ''Entire screen'' \<rparr>" "[]"
        initialDialog callback_returns]
  by (simp add: navigator_granting_def callback_returns_def example_stream_def initialDialog_def
        request_defs)

lemma hasGetDisplayMedia_iff:
  "hasGetDisplayMedia navigator =
     (\<exists>md f. mediaDevices navigator = Some md \<and> getDisplayMedia md = Some f)"
  by (auto simp add: hasGetDisplayMedia_def split: option.splits)

lemma platform_calls_capable:
  assumes "mediaDevices navigator = Some md" and "getDisplayMedia md = Some f"
  shows "filter isPlatformCall (emitted d (requestScreenShare navigator cb d)) =
           [CallGetDisplayMedia DISPLAY_CONSTRAINTS]"
  using assms
  by (simp add: request_defs split: option.split promise_outcome.split list.split)

lemma platform_calls_incapable:
  assumes "\<not> hasGetDisplayMedia navigator"
  shows "filter isPlatformCall (emitted d (requestScreenShare navigator cb d)) = []"
  using assms
  by (auto simp add: request_defs hasGetDisplayMedia_def split: option.splits)

text \<open>
  C9. A request calls the platform function once where the environment has it (and
  not at all where it has not), and always with \<open>DISPLAY_CONSTRAINTS\<close>: width ideal
  and max 1920, height ideal and max 1080, frame rate ideal and max 60, audio off.
\<close>

theorem requestScreenShare_constraints:
  "filter isPlatformCall (emitted d (requestScreenShare navigator cb d)) =
     (if hasGetDisplayMedia navigator then [CallGetDisplayMedia DISPLAY_CONSTRAINTS] else [])
   \<and> ideal (width (video DISPLAY_CONSTRAINTS)) = 1920
   \<and> max_value (width (video DISPLAY_CONSTRAINTS)) = 1920
   \<and> ideal (height (video DISPLAY_CONSTRAINTS)) = 1080
   \<and> max_value (height (video DISPLAY_CONSTRAINTS)) = 1080
   \<and> ideal (frameRate (video DISPLAY_CONSTRAINTS)) = 60
   \<and> max_value (frameRate (video DISPLAY_CONSTRAINTS)) = 60
   \<and> audio DISPLAY_CONSTRAINTS = False"
proof -
  have "filter isPlatformCall (emitted d (requestScreenShare navigator cb d)) =
     (if hasGetDisplayMedia navigator then [CallGetDisplayMedia DISPLAY_CONSTRAINTS] else [])"
  proof (cases "hasGetDisplayMedia navigator")
    case True
    then obtain md f where "mediaDevices navigator = Some md" and "getDisplayMedia md = Some f"
      unfolding hasGetDisplayMedia_iff by blast
    from platform_calls_capable [OF this] True show ?thesis by simp
  next
    case False
    from platform_calls_incapable [OF this] False show ?thesis by simp
  qed
  then show ?thesis
    by (simp add: DISPLAY_CONSTRAINTS_def)
qed

section \<open>The troubleshooting table\<close>

lemma hasEntry_types:
  "hasEntry ''https''" "hasEntry ''not-supported''" "hasEntry ''permission''" "hasEntry ''general''"
  by (simp_all add: hasEntry_def troubleshootingData_def ERROR_TYPES_def)

lemma hasEntry_getErrorInfo: "hasEntry (type (getErrorInfo navigator err))"
  using getErrorInfo_type [of navigator err] hasEntry_types by auto

lemma content_of_entry:
  assumes "hasEntry (type e)" and "error d = Some e"
  shows "\<exists>view. getTroubleshootingContent d = Inr (Some view) \<and> list_items view \<noteq> []"
  using assms
  by (auto simp add: hasEntry_def getTroubleshootingContent_def Let_def split: option.splits)

lemma request_content:
  "\<exists>r. getTroubleshootingContent (requestScreenShare navigator cb d) = Inr r"
proof (cases "error (requestScreenShare navigator cb d)")
  case None
  then show ?thesis by (simp add: getTroubleshootingContent_def)
next
  case (Some e)
  then obtain err where "e = getErrorInfo navigator err"
    unfolding request_error by (auto split: completion.splits)
  then have "hasEntry (type e)" by (simp only: hasEntry_getErrorInfo)
  from content_of_entry [OF this Some] show ?thesis by blast
qed

text \<open>
  C10. The keys of \<open>troubleshootingData\<close> are the four strings of \<open>ERROR_TYPES\<close>, and
  under each the table has an entry with a title and at least one item. So the lookup
  by the type of any error that \<open>getErrorInfo\<close> returns finds such an entry,
  \<open>getTroubleshootingContent\<close> renders it with a non-empty list, and after a request
  \<open>getTroubleshootingContent\<close> does not fail on a missing entry.
\<close>

theorem troubleshootingData_covers_all_types:
  "map fst troubleshootingData =
     [HTTPS ERROR_TYPES, NOT_SUPPORTED ERROR_TYPES, PERMISSION ERROR_TYPES, GENERAL ERROR_TYPES]
   \<and> hasEntry (HTTPS ERROR_TYPES) \<and> hasEntry (NOT_SUPPORTED ERROR_TYPES)
   \<and> hasEntry (PERMISSION ERROR_TYPES) \<and> hasEntry (GENERAL ERROR_TYPES)
   \<and> hasEntry (type (getErrorInfo navigator err))
   \<and> (\<exists>view. getTroubleshootingContent (d\<lparr> error := Some (getErrorInfo navigator err) \<rparr>) =
               Inr (Some view) \<and> list_items view \<noteq> [])
   \<and> (\<exists>r. getTroubleshootingContent (requestScreenShare navigator cb d) = Inr r)"
proof -
  have keys: "map fst troubleshootingData =
     [HTTPS ERROR_TYPES, NOT_SUPPORTED ERROR_TYPES, PERMISSION ERROR_TYPES, GENERAL ERROR_TYPES]"
    by (simp add: troubleshootingData_def)
  have four: "hasEntry (HTTPS ERROR_TYPES)" "hasEntry (NOT_SUPPORTED ERROR_TYPES)"
    "hasEntry (PERMISSION ERROR_TYPES)" "hasEntry (GENERAL ERROR_TYPES)"
    using hasEntry_types by (simp_all add: ERROR_TYPES_def)
  have view: "\<exists>view. getTroubleshootingContent (d\<lparr> error := Some (getErrorInfo navigator err) \<rparr>) =
               Inr (Some view) \<and> list_items view \<noteq> []"
    by (rule content_of_entry [OF hasEntry_getErrorInfo]) simp
  from keys four hasEntry_getErrorInfo view request_content show ?thesis by (intro conjI)
qed

end
